theory Spec2Isabelle
  imports Main "HOL-Library.AList"
begin

section \<open>JavaScript values and thrown values\<close>

text \<open>
  The values that come back through the gateway are parsed response bodies, JSON
  documents. Their numbers are kept to the integers; no property below depends on a
  fractional part. An optional parameter or property (\<open>data?: any\<close>) is an
  \<open>option\<close>, with \<open>None\<close> for \<open>undefined\<close>.
\<close>

datatype jsval =
    JNull
  | JBool bool
  | JNum int
  | JStr string
  | JArr "jsval list"
  | JObj "(string \<times> jsval) list"

text \<open>JavaScript truthiness, as used by \<open>x ? a : b\<close>, \<open>!x\<close> and \<open>x || y\<close>.\<close>

fun truthy :: "jsval \<Rightarrow> bool" where
  "truthy JNull = False"
| "truthy (JBool b) = b"
| "truthy (JNum n) = (n \<noteq> 0)"
| "truthy (JStr s) = (s \<noteq> [])"
| "truthy (JArr vs) = True"
| "truthy (JObj kvs) = True"

definition truthy_string :: "string option \<Rightarrow> bool" where
  "truthy_string s = (case s of None \<Rightarrow> False | Some x \<Rightarrow> x \<noteq> [])"

text \<open>
  What a \<open>throw\<close> or a rejected promise carries: an \<open>Error\<close> object with its
  \<open>name\<close> and \<open>message\<close>, a \<open>GraphQLError\<close> (a subclass of \<open>Error\<close>), or any
  other value (\<open>throw 'String error'\<close>).
\<close>

datatype throwable =
    Error string string
  | GraphQLError string
  | Thrown jsval

fun instanceof_Error :: "throwable \<Rightarrow> bool" where
  "instanceof_Error (Error n m) = True"
| "instanceof_Error (GraphQLError m) = True"
| "instanceof_Error (Thrown v) = False"

fun instanceof_GraphQLError :: "throwable \<Rightarrow> bool" where
  "instanceof_GraphQLError (GraphQLError m) = True"
| "instanceof_GraphQLError (Error n m) = False"
| "instanceof_GraphQLError (Thrown v) = False"

fun error_name :: "throwable \<Rightarrow> string" where
  "error_name (Error n m) = n"
| "error_name (GraphQLError m) = ''GraphQLError''"
| "error_name (Thrown v) = ''undefined''"

fun error_message :: "throwable \<Rightarrow> string" where
  "error_message (Error n m) = m"
| "error_message (GraphQLError m) = m"
| "error_message (Thrown v) = ''undefined''"

text \<open>\<open>new Error(message)\<close>: the name of a plain error is \<open>Error\<close>.\<close>

definition new_Error :: "string \<Rightarrow> throwable" where
  "new_Error m = Error ''Error'' m"

subsection \<open>Numbers in template literals\<close>

fun show_nat :: "nat \<Rightarrow> string" where
  "show_nat n =
     (if n < 10 then [''0123456789'' ! n]
      else show_nat (n div 10) @ [''0123456789'' ! (n mod 10)])"

declare show_nat.simps [simp del]

definition number_toString :: "int \<Rightarrow> string" where
  "number_toString i =
     (if i < 0 then CHR ''-'' # show_nat (nat (- i)) else show_nat (nat i))"

subsection \<open>Values given as a request body\<close>

text \<open>
  \<open>request\<close> takes its body as \<open>data?: any\<close> and does two things with it: it tests
  its truthiness (\<open>data ? ... : undefined\<close>) and it calls \<open>JSON.stringify(data)\<close>.
  \<open>JSON.stringify\<close> belongs to the platform; a value is described here by what these
  two operations give on it. \<open>JSON.stringify\<close> returns a string, returns \<open>undefined\<close>
  (\<open>None\<close>: on a function or a symbol), or throws (on a \<open>BigInt\<close>, on a cyclic
  object). \<open>js_data\<close> are the values on which it returns, \<open>js_any\<close> all values.
\<close>

record js_data =
  data_truthy :: bool
  data_json :: "string option"

record js_any =
  any_truthy :: bool
  any_stringify :: "throwable + string option"

definition accepted :: "js_data \<Rightarrow> js_any" where
  "accepted d = \<lparr>any_truthy = data_truthy d, any_stringify = Inr (data_json d)\<rparr>"

subsection \<open>The fetch platform\<close>

text \<open>
  \<open>controller.signal\<close> of the \<open>AbortController\<close> that the request creates for itself.
\<close>

datatype abort_signal = ControllerSignal

text \<open>
  The second argument of \<open>fetch\<close>. A property that is absent or \<open>undefined\<close> is
  \<open>None\<close>; \<open>fetch(url)\<close> alone is \<open>fetch\<close> with \<open>no_init\<close>.
\<close>

record fetch_init =
  http_method :: "string option"
  headers :: "(string \<times> string) list"
  body :: "string option"
  signal :: "abort_signal option"

definition no_init :: fetch_init where
  "no_init = \<lparr>http_method = None, headers = [], body = None, signal = None\<rparr>"

text \<open>
  The \<open>Response\<close> that \<open>fetch\<close> resolves to, with the properties the code reads, and
  the outcome of its \<open>json()\<close> method: the parsed body, or what parsing throws.
\<close>

record response =
  ok :: bool
  http_status :: int
  statusText :: string
  json :: "throwable + jsval"

text \<open>The Fetch standard defines \<open>ok\<close> as: the status is in the range 200 to 299.\<close>

definition success_range :: "int \<Rightarrow> bool" where
  "success_range s = (200 \<le> s \<and> s \<le> 299)"

definition fetch_response_wf :: "response \<Rightarrow> bool" where
  "fetch_response_wf r = (ok r = success_range (http_status r))"

text \<open>
  The downstream side of one call: what \<open>fetch(url, init)\<close> settles to, a rejection
  (\<open>Inl\<close>) or a response.
\<close>

type_synonym transport = "string \<Rightarrow> fetch_init \<Rightarrow> throwable + response"

text \<open>The observable effects of a call, in program order.\<close>

datatype event =
    SetTimeout_abort nat
  | ClearTimeout
  | Fetch string fetch_init
  | ReadJson
  | ConsoleLog string

fun fetch_calls :: "event list \<Rightarrow> (string \<times> fetch_init) list" where
  "fetch_calls [] = []"
| "fetch_calls (Fetch url init # es) = (url, init) # fetch_calls es"
| "fetch_calls (e # es) = fetch_calls es"

text \<open>
  Object spread \<open>{...a, ...b}\<close> on string-keyed objects: the properties of \<open>a\<close>, then
  those of \<open>b\<close> in order, a repeated key keeping its place and taking the later value.
\<close>

definition spread :: "(string \<times> string) list \<Rightarrow> (string \<times> string) list \<Rightarrow> (string \<times> string) list" where
  "spread a b = fold (\<lambda>(k, v). AList.update k v) b a"

section \<open>Configuration\<close>

record AppConfig =
  request_timeout :: nat
  serviceMesh_serviceName :: string
  serviceMesh_serviceVersion :: string
  services_userService :: string
  services_productService :: string
  services_notificationService :: string

section \<open>The downstream HTTP client\<close>

record HttpClientOptions =
  opt_timeout :: "nat option"
  opt_headers :: "(string \<times> string) list option"

record ServiceResponse =
  data :: "jsval option"
  error :: "string option"
  status :: int

record HttpClient =
  baseUrl :: string
  timeout :: nat
  defaultHeaders :: "(string \<times> string) list"

text \<open>\<open>baseUrl.replace(/\/$/, '')\<close>: one slash at the end of the string is removed.\<close>

definition strip_trailing_slash :: "string \<Rightarrow> string" where
  "strip_trailing_slash s = (if s \<noteq> [] \<and> last s = CHR ''/'' then butlast s else s)"

definition no_options :: HttpClientOptions where
  "no_options = \<lparr>opt_timeout = None, opt_headers = None\<rparr>"

definition HttpClient_new :: "AppConfig \<Rightarrow> string \<Rightarrow> HttpClientOptions \<Rightarrow> HttpClient" where
  "HttpClient_new appConfig url options =
     \<lparr>baseUrl = strip_trailing_slash url,
      timeout = (case opt_timeout options of
                   Some t \<Rightarrow> if t \<noteq> 0 then t else request_timeout appConfig
                 | None \<Rightarrow> request_timeout appConfig),
      defaultHeaders =
        spread [(''Content-Type'', ''application/json''),
                (''User-Agent'',
                 serviceMesh_serviceName appConfig @ ''/'' @ serviceMesh_serviceVersion appConfig)]
               (case opt_headers options of Some h \<Rightarrow> h | None \<Rightarrow> [])\<rparr>"

text \<open>
  The object literal that \<open>request\<close> passes to \<open>fetch\<close>, for a body that
  \<open>JSON.stringify\<close> accepts.
\<close>

definition request_init ::
  "HttpClient \<Rightarrow> string \<Rightarrow> js_data option \<Rightarrow> (string \<times> string) list option \<Rightarrow> fetch_init" where
  "request_init c meth dat hdrs =
     \<lparr>http_method = Some meth,
      headers = spread (defaultHeaders c) (case hdrs of Some h \<Rightarrow> h | None \<Rightarrow> []),
      body = (case dat of
                None \<Rightarrow> None
              | Some d \<Rightarrow> if data_truthy d then data_json d else None),
      signal = Some ControllerSignal\<rparr>"

text \<open>The \<open>catch\<close> block of \<open>request\<close>.\<close>

definition request_catch :: "throwable \<Rightarrow> ServiceResponse" where
  "request_catch e =
     (if instanceof_Error e then
        if error_name e = ''AbortError'' then
          \<lparr>data = None, error = Some ''Request timeout'', status = 408\<rparr>
        else \<lparr>data = None, error = Some (error_message e), status = 500\<rparr>
      else \<lparr>data = None, error = Some ''Unknown error occurred'', status = 500\<rparr>)"

text \<open>
  \<open>request\<close> on a body that \<open>JSON.stringify\<close> accepts; \<open>get\<close> and \<open>delete\<close>, through
  which the service clients below call it, pass no body. \<open>HttpClient_request\<close>, after
  them, is \<open>request\<close> on any value, and agrees with this one wherever
  \<open>JSON.stringify\<close> returns.
\<close>

definition request ::
  "HttpClient \<Rightarrow> transport \<Rightarrow> string \<Rightarrow> string \<Rightarrow> js_data option \<Rightarrow>
   (string \<times> string) list option \<Rightarrow> ServiceResponse \<times> event list" where
  "request c net meth path dat hdrs =
     (let url = baseUrl c @ path;
          init = request_init c meth dat hdrs;
          started = [SetTimeout_abort (timeout c), Fetch url init]
      in case net url init of
           Inl e \<Rightarrow> (request_catch e, started)
         | Inr resp \<Rightarrow>
             if \<not> ok resp then
               (\<lparr>data = None,
                 error = Some (''HTTP '' @ number_toString (http_status resp) @ '': '' @ statusText resp),
                 status = http_status resp\<rparr>,
                started @ [ClearTimeout])
             else
               (case json resp of
                  Inl e \<Rightarrow> (request_catch e, started @ [ClearTimeout, ReadJson])
                | Inr responseData \<Rightarrow>
                    (\<lparr>data = Some responseData, error = None, status = http_status resp\<rparr>,
                     started @ [ClearTimeout, ReadJson])))"

definition get ::
  "HttpClient \<Rightarrow> transport \<Rightarrow> string \<Rightarrow> (string \<times> string) list option \<Rightarrow>
   ServiceResponse \<times> event list" where
  "get c net path hdrs = request c net ''GET'' path None hdrs"

text \<open>
  \<open>request\<close> on any value. The body expression \<open>data ? JSON.stringify(data) : undefined\<close>
  is evaluated inside the \<open>try\<close>, after the timer is set and before \<open>fetch\<close> is
  called: when it throws, the \<open>catch\<close> block answers and no call goes out.
\<close>

definition body_expression :: "js_any option \<Rightarrow> throwable + string option" where
  "body_expression dat =
     (case dat of
        None \<Rightarrow> Inr None
      | Some d \<Rightarrow> if any_truthy d then any_stringify d else Inr None)"

definition HttpClient_request ::
  "HttpClient \<Rightarrow> transport \<Rightarrow> string \<Rightarrow> string \<Rightarrow> js_any option \<Rightarrow>
   (string \<times> string) list option \<Rightarrow> ServiceResponse \<times> event list" where
  "HttpClient_request c net meth path dat hdrs =
     (let url = baseUrl c @ path;
          requestHeaders = spread (defaultHeaders c) (case hdrs of Some h \<Rightarrow> h | None \<Rightarrow> [])
      in case body_expression dat of
           Inl e \<Rightarrow> (request_catch e, [SetTimeout_abort (timeout c)])
         | Inr b \<Rightarrow>
             (let init = \<lparr>http_method = Some meth, headers = requestHeaders, body = b,
                         signal = Some ControllerSignal\<rparr>;
                  started = [SetTimeout_abort (timeout c), Fetch url init]
              in case net url init of
                   Inl e \<Rightarrow> (request_catch e, started)
                 | Inr resp \<Rightarrow>
                     if \<not> ok resp then
                       (\<lparr>data = None,
                         error = Some (''HTTP '' @ number_toString (http_status resp) @ '': ''
                                       @ statusText resp),
                         status = http_status resp\<rparr>,
                        started @ [ClearTimeout])
                     else
                       (case json resp of
                          Inl e \<Rightarrow> (request_catch e, started @ [ClearTimeout, ReadJson])
                        | Inr responseData \<Rightarrow>
                            (\<lparr>data = Some responseData, error = None,
                              status = http_status resp\<rparr>,
                             started @ [ClearTimeout, ReadJson]))))"

definition post ::
  "HttpClient \<Rightarrow> transport \<Rightarrow> string \<Rightarrow> js_any option \<Rightarrow> (string \<times> string) list option \<Rightarrow>
   ServiceResponse \<times> event list" where
  "post c net path dat hdrs = HttpClient_request c net ''POST'' path dat hdrs"

definition put ::
  "HttpClient \<Rightarrow> transport \<Rightarrow> string \<Rightarrow> js_any option \<Rightarrow> (string \<times> string) list option \<Rightarrow>
   ServiceResponse \<times> event list" where
  "put c net path dat hdrs = HttpClient_request c net ''PUT'' path dat hdrs"

definition delete ::
  "HttpClient \<Rightarrow> transport \<Rightarrow> string \<Rightarrow> (string \<times> string) list option \<Rightarrow>
   ServiceResponse \<times> event list" where
  "delete c net path hdrs = request c net ''DELETE'' path None hdrs"

section \<open>Health probing by the HTTP client\<close>

record HealthResult =
  health_status :: string
  responseTime :: int

text \<open>
  \<open>healthCheck\<close> reads the clock twice, \<open>startTime = Date.now()\<close> before the call and
  \<open>Date.now()\<close> after it; the two readings are the arguments \<open>startTime\<close> and \<open>now\<close>.
  \<open>healthCheck_result\<close> is the body of its \<open>try\<close> and \<open>catch\<close>, on the outcome of
  \<open>await this.get('/health')\<close>.
\<close>

definition healthCheck_result :: "throwable + ServiceResponse \<Rightarrow> int \<Rightarrow> int \<Rightarrow> HealthResult" where
  "healthCheck_result outcome startTime now =
     (case outcome of
        Inr resp \<Rightarrow>
          \<lparr>health_status = (if status resp = 200 then ''healthy'' else ''unhealthy''),
           responseTime = now - startTime\<rparr>
      | Inl e \<Rightarrow> \<lparr>health_status = ''unhealthy'', responseTime = now - startTime\<rparr>)"

definition healthCheck ::
  "HttpClient \<Rightarrow> transport \<Rightarrow> int \<Rightarrow> int \<Rightarrow> (throwable + HealthResult) \<times> event list" where
  "healthCheck c net startTime now =
     (let (resp, evs) = get c net ''/health'' None
      in (Inr (healthCheck_result (Inr resp) startTime now), evs))"

section \<open>Service clients that unwrap the envelope\<close>

text \<open>\<open>a || b\<close> on an optional string \<open>a\<close>.\<close>

definition string_or :: "string option \<Rightarrow> string \<Rightarrow> string" where
  "string_or a b = (case a of None \<Rightarrow> b | Some x \<Rightarrow> if x \<noteq> [] then x else b)"

definition userService_client :: "AppConfig \<Rightarrow> HttpClient" where
  "userService_client appConfig = HttpClient_new appConfig (services_userService appConfig) no_options"

definition productService_client :: "AppConfig \<Rightarrow> HttpClient" where
  "productService_client appConfig =
     HttpClient_new appConfig (services_productService appConfig) no_options"

definition notificationService_client :: "AppConfig \<Rightarrow> HttpClient" where
  "notificationService_client appConfig =
     HttpClient_new appConfig (services_notificationService appConfig) no_options"

definition getUserById ::
  "HttpClient \<Rightarrow> transport \<Rightarrow> string \<Rightarrow> (throwable + jsval) \<times> event list" where
  "getUserById client net ident =
     (let (resp, evs) = get client net (''/users/'' @ ident) None
      in (case data resp of
            None \<Rightarrow> Inl (new_Error (string_or (error resp) ''Failed to fetch user''))
          | Some d \<Rightarrow>
              if truthy_string (error resp) \<or> \<not> truthy d
              then Inl (new_Error (string_or (error resp) ''Failed to fetch user''))
              else Inr d,
          evs))"

definition deleteUser ::
  "HttpClient \<Rightarrow> transport \<Rightarrow> string \<Rightarrow> (throwable + bool) \<times> event list" where
  "deleteUser client net ident =
     (let (resp, evs) = delete client net (''/users/'' @ ident) None
      in (case error resp of
            None \<Rightarrow> Inr (status resp = 204)
          | Some msg \<Rightarrow> if msg \<noteq> [] then Inl (new_Error msg) else Inr (status resp = 204),
          evs))"

definition deleteProduct ::
  "HttpClient \<Rightarrow> transport \<Rightarrow> string \<Rightarrow> (throwable + bool) \<times> event list" where
  "deleteProduct client net ident =
     (let (resp, evs) = delete client net (''/products/'' @ ident) None
      in (case error resp of
            None \<Rightarrow> Inr (status resp = 204)
          | Some msg \<Rightarrow> if msg \<noteq> [] then Inl (new_Error msg) else Inr (status resp = 204),
          evs))"

definition deleteNotification ::
  "HttpClient \<Rightarrow> transport \<Rightarrow> string \<Rightarrow> (throwable + bool) \<times> event list" where
  "deleteNotification client net ident =
     (let (resp, evs) = delete client net (''/notifications/'' @ ident) None
      in (case error resp of
            None \<Rightarrow> Inr (status resp = 204)
          | Some msg \<Rightarrow> if msg \<noteq> [] then Inl (new_Error msg) else Inr (status resp = 204),
          evs))"

definition NotificationService_healthCheck ::
  "HttpClient \<Rightarrow> transport \<Rightarrow> int \<Rightarrow> int \<Rightarrow> (throwable + HealthResult) \<times> event list" where
  "NotificationService_healthCheck client net startTime now = healthCheck client net startTime now"

section \<open>Service clients that call fetch themselves\<close>

text \<open>
  \<open>AccountService\<close> and \<open>CustomerService\<close> hold only \<open>this.baseUrl\<close>, taken from
  \<open>config.downstream\<close>; it is the first argument of their methods.
\<close>

record Config =
  downstream_accountService :: string
  downstream_customerService :: string

definition getAccountById ::
  "string \<Rightarrow> transport \<Rightarrow> string \<Rightarrow> (throwable + jsval) \<times> event list" where
  "getAccountById base net ident =
     (let url = base @ ''/accounts/'' @ ident
      in case net url no_init of
           Inl e \<Rightarrow> (Inl e, [Fetch url no_init])
         | Inr resp \<Rightarrow>
             if \<not> ok resp then
               (Inl (new_Error (''Failed to fetch account '' @ ident @ '': ''
                                @ number_toString (http_status resp) @ '' '' @ statusText resp)),
                [Fetch url no_init])
             else (json resp, [Fetch url no_init, ReadJson]))"

definition getAccountsByCustomerId ::
  "string \<Rightarrow> transport \<Rightarrow> string \<Rightarrow> (throwable + jsval) \<times> event list" where
  "getAccountsByCustomerId base net customerId =
     (let url = base @ ''/accounts?customerId='' @ customerId
      in case net url no_init of
           Inl e \<Rightarrow> (Inl e, [Fetch url no_init])
         | Inr resp \<Rightarrow>
             if \<not> ok resp then
               (Inl (new_Error (''Failed to fetch accounts for customer '' @ customerId @ '': ''
                                @ number_toString (http_status resp) @ '' '' @ statusText resp)),
                [Fetch url no_init])
             else (json resp, [Fetch url no_init, ReadJson]))"

definition customer_init :: fetch_init where
  "customer_init =
     \<lparr>http_method = None, headers = [(''Content-Type'', ''application/json'')],
      body = None, signal = None\<rparr>"

definition getCustomerById ::
  "string \<Rightarrow> transport \<Rightarrow> string \<Rightarrow> (throwable + jsval) \<times> event list" where
  "getCustomerById base net ident =
     (let url = base @ ''/customers/'' @ ident
      in case net url customer_init of
           Inl e \<Rightarrow> (Inl e, [Fetch url customer_init])
         | Inr resp \<Rightarrow>
             if \<not> ok resp then
               (Inl (new_Error (''Failed to fetch customer '' @ ident @ '': ''
                                @ number_toString (http_status resp) @ '' '' @ statusText resp)),
                [Fetch url customer_init])
             else (json resp, [Fetch url customer_init, ReadJson]))"

section \<open>Resolvers\<close>

record resolver_context =
  requestId :: "string option"

text \<open>The \<open>catch\<close> of the account and customer resolver functions.\<close>

definition to_GraphQLError :: "throwable \<Rightarrow> string \<Rightarrow> throwable" where
  "to_GraphQLError e fallback =
     GraphQLError (if instanceof_Error e then error_message e else fallback)"

definition accountResolver_getAccount ::
  "Config \<Rightarrow> transport \<Rightarrow> string \<Rightarrow> resolver_context \<Rightarrow> (throwable + jsval) \<times> event list" where
  "accountResolver_getAccount config net ident ctx =
     (let (r, evs) = getAccountById (downstream_accountService config) net ident
      in (case r of
            Inr result \<Rightarrow> Inr result
          | Inl e \<Rightarrow> Inl (to_GraphQLError e ''Failed to fetch account''),
          ConsoleLog (''['' @ string_or (requestId ctx) ''unknown'' @ ''] Fetching account: '' @ ident)
            # evs))"

text \<open>The parent of \<open>Account.customer\<close> is read for its \<open>customerId\<close> only.\<close>

definition accountResolver_getCustomer ::
  "Config \<Rightarrow> transport \<Rightarrow> string \<Rightarrow> resolver_context \<Rightarrow> (throwable + jsval) \<times> event list" where
  "accountResolver_getCustomer config net account_customerId ctx =
     (let (r, evs) = getCustomerById (downstream_customerService config) net account_customerId
      in (case r of
            Inr result \<Rightarrow> Inr result
          | Inl e \<Rightarrow> Inl (to_GraphQLError e ''Failed to fetch customer''),
          ConsoleLog (''['' @ string_or (requestId ctx) ''unknown''
                      @ ''] Fetching customer for account: '' @ account_customerId)
            # evs))"

definition customerResolver_getCustomer ::
  "Config \<Rightarrow> transport \<Rightarrow> string \<Rightarrow> resolver_context \<Rightarrow> (throwable + jsval) \<times> event list" where
  "customerResolver_getCustomer config net ident ctx =
     (let (r, evs) = getCustomerById (downstream_customerService config) net ident
      in (case r of
            Inr result \<Rightarrow> Inr result
          | Inl e \<Rightarrow> Inl (to_GraphQLError e ''Failed to fetch customer''),
          ConsoleLog (''['' @ string_or (requestId ctx) ''unknown'' @ ''] Fetching customer: '' @ ident)
            # evs))"

text \<open>The parent of \<open>Customer.accounts\<close> is read for its \<open>id\<close> only.\<close>

definition customerResolver_getAccounts ::
  "Config \<Rightarrow> transport \<Rightarrow> string \<Rightarrow> resolver_context \<Rightarrow> (throwable + jsval) \<times> event list" where
  "customerResolver_getAccounts config net customer_id ctx =
     (let (r, evs) = getAccountsByCustomerId (downstream_accountService config) net customer_id
      in (case r of
            Inr result \<Rightarrow> Inr result
          | Inl e \<Rightarrow> Inl (to_GraphQLError e ''Failed to fetch accounts''),
          ConsoleLog (''['' @ string_or (requestId ctx) ''unknown''
                      @ ''] Fetching accounts for customer: '' @ customer_id)
            # evs))"

text \<open>The user resolvers have no \<open>try\<close>: whatever the service client raises leaves them.\<close>

definition userResolvers_Query_user ::
  "HttpClient \<Rightarrow> transport \<Rightarrow> string \<Rightarrow> (throwable + jsval) \<times> event list" where
  "userResolvers_Query_user client net ident = getUserById client net ident"

definition userResolvers_Mutation_deleteUser ::
  "HttpClient \<Rightarrow> transport \<Rightarrow> string \<Rightarrow> (throwable + bool) \<times> event list" where
  "userResolvers_Mutation_deleteUser client net ident = deleteUser client net ident"

text \<open>
  \<open>customerResolvers\<close> is written over a placeholder customer service, local to its
  file, that answers every id.
\<close>

definition placeholder_getCustomerById :: "string \<Rightarrow> throwable + jsval" where
  "placeholder_getCustomerById ident =
     Inr (JObj [(''id'', JStr ident),
                (''name'', JStr (''Customer '' @ ident)),
                (''email'', JStr (''customer'' @ ident @ ''@example.com''))])"

definition customerResolvers_Query_customer :: "string \<Rightarrow> throwable + jsval" where
  "customerResolvers_Query_customer ident =
     (case placeholder_getCustomerById ident of
        Inr result \<Rightarrow> Inr result
      | Inl e \<Rightarrow>
          Inl (new_Error (''Failed to fetch customer: ''
                          @ (if instanceof_Error e then error_message e else ''Unknown error''))))"

section \<open>The health aggregator\<close>

datatype 'a settled = Fulfilled 'a | Rejected throwable

definition allSettled :: "(throwable + 'a) list \<Rightarrow> 'a settled list" where
  "allSettled ps = map (\<lambda>p. case p of Inr v \<Rightarrow> Fulfilled v | Inl e \<Rightarrow> Rejected e) ps"

text \<open>
  An entry of the \<open>services\<close> array. Its name is \<open>['notification-service'][index]\<close>,
  which is \<open>undefined\<close> (\<open>None\<close>) beyond the first index; \<open>responseTime: null\<close> is
  \<open>None\<close>.
\<close>

record ServiceHealth =
  name :: "string option"
  service_status :: string
  service_responseTime :: "int option"

record HealthCheck =
  overall_status :: string
  timestamp :: string
  services :: "ServiceHealth list"

definition nth_opt :: "'a list \<Rightarrow> nat \<Rightarrow> 'a option" where
  "nth_opt xs i = (if i < length xs then Some (xs ! i) else None)"

definition serviceHealths :: "HealthResult settled list \<Rightarrow> ServiceHealth list" where
  "serviceHealths settled_checks =
     map (\<lambda>(result, index).
            let serviceName = nth_opt [''notification-service''] index
            in case result of
                 Fulfilled v \<Rightarrow>
                   \<lparr>name = serviceName, service_status = ''healthy'',
                    service_responseTime =
                      Some (if responseTime v \<noteq> 0 then responseTime v else 0)\<rparr>
               | Rejected e \<Rightarrow>
                   \<lparr>name = serviceName, service_status = ''unhealthy'',
                    service_responseTime = None\<rparr>)
         (zip settled_checks [0 ..< length settled_checks])"

text \<open>
  \<open>Query.health\<close>. The time stamp \<open>new Date().toISOString()\<close> is the argument \<open>ts\<close>.
  Nothing inside its \<open>try\<close> raises, so its \<open>catch\<close> has no branch here.
\<close>

definition health ::
  "HttpClient \<Rightarrow> transport \<Rightarrow> string \<Rightarrow> int \<Rightarrow> int \<Rightarrow> (throwable + HealthCheck) \<times> event list" where
  "health client net ts startTime now =
     (let (h, evs) = NotificationService_healthCheck client net startTime now;
          settled_checks = allSettled [h]
      in (Inr \<lparr>overall_status = ''healthy'', timestamp = ts,
               services = serviceHealths settled_checks\<rparr>,
          evs))"

section \<open>Example values used to run the definitions\<close>

definition appConfig0 :: AppConfig where
  "appConfig0 =
     \<lparr>request_timeout = 30000,
      serviceMesh_serviceName = ''conduites-bff'',
      serviceMesh_serviceVersion = ''1.0.0'',
      services_userService = ''http://user-service:8080'',
      services_productService = ''http://product-service:8080'',
      services_notificationService = ''http://notification-service:8080''\<rparr>"

definition config0 :: Config where
  "config0 =
     \<lparr>downstream_accountService = ''http://account-service:8080'',
      downstream_customerService = ''http://customer-service:8080''\<rparr>"

definition client0 :: HttpClient where
  "client0 = HttpClient_new appConfig0 ''http://example.com/'' no_options"

definition respond :: "response \<Rightarrow> transport" where
  "respond r = (\<lambda>url init. Inr r)"

definition reject :: "throwable \<Rightarrow> transport" where
  "reject e = (\<lambda>url init. Inl e)"

definition not_found :: response where
  "not_found = \<lparr>ok = False, http_status = 404, statusText = ''Not Found'',
                 json = Inr (JObj [(''message'', JStr ''no such thing'')])\<rparr>"

definition unavailable :: response where
  "unavailable = \<lparr>ok = False, http_status = 503, statusText = ''Service Unavailable'',
                   json = Inl (Error ''SyntaxError'' ''Unexpected end of JSON input'')\<rparr>"

definition bad_json :: response where
  "bad_json = \<lparr>ok = True, http_status = 200, statusText = ''OK'',
                json = Inl (Error ''SyntaxError'' ''Unexpected end of JSON input'')\<rparr>"

text \<open>
  The body \<open>{name: 'test', value: 123}\<close>; the number \<open>0\<close>; the \<open>BigInt\<close> \<open>1n\<close>.
\<close>

definition test_object :: js_any where
  "test_object =
     \<lparr>any_truthy = True,
      any_stringify =
        Inr (Some [CHR ''{'', CHR 0x22, CHR ''n'', CHR ''a'', CHR ''m'', CHR ''e'', CHR 0x22,
                   CHR '':'', CHR 0x22, CHR ''t'', CHR ''e'', CHR ''s'', CHR ''t'', CHR 0x22,
                   CHR '','', CHR 0x22, CHR ''v'', CHR ''a'', CHR ''l'', CHR ''u'', CHR ''e'',
                   CHR 0x22, CHR '':'', CHR ''1'', CHR ''2'', CHR ''3'', CHR ''}''])\<rparr>"

definition js_zero :: js_any where
  "js_zero = \<lparr>any_truthy = False, any_stringify = Inr (Some ''0'')\<rparr>"

definition js_bigint :: js_any where
  "js_bigint =
     \<lparr>any_truthy = True,
      any_stringify = Inl (Error ''TypeError'' ''Do not know how to serialize a BigInt'')\<rparr>"

definition two_accounts :: jsval where
  "two_accounts =
     JArr [JObj [(''id'', JStr ''acc001''), (''accountNumber'', JStr ''ACC-001''),
                 (''balance'', JNum 1000), (''customerId'', JStr ''cust789'')],
           JObj [(''id'', JStr ''acc002''), (''accountNumber'', JStr ''ACC-002''),
                 (''balance'', JNum 2500), (''customerId'', JStr ''cust789'')]]"

definition ok_with :: "int \<Rightarrow> jsval \<Rightarrow> response" where
  "ok_with s v = \<lparr>ok = True, http_status = s, statusText = ''OK'', json = Inr v\<rparr>"

section \<open>The HTTP client: results\<close>

lemma request_not_ok:
  assumes "net (baseUrl c @ path) (request_init c meth dat hdrs) = Inr resp" and "\<not> ok resp"
  shows "request c net meth path dat hdrs =
           (\<lparr>data = None,
             error = Some (''HTTP '' @ number_toString (http_status resp) @ '': '' @ statusText resp),
             status = http_status resp\<rparr>,
            [SetTimeout_abort (timeout c), Fetch (baseUrl c @ path) (request_init c meth dat hdrs),
             ClearTimeout])"
  using assms by (simp add: request_def Let_def)

text \<open>
  C2. When the response to the call has a status outside 200..299, \<open>request\<close> returns
  exactly the status and the error \<open>HTTP <status>: <status text>\<close>, sets no data, and
  its effects contain no read of the response body.
\<close>

theorem request_http_failure:
  assumes "net (baseUrl c @ path) (request_init c meth dat hdrs) = Inr resp"
    and "fetch_response_wf resp"
    and "\<not> success_range (http_status resp)"
  shows "fst (request c net meth path dat hdrs) =
           \<lparr>data = None,
            error = Some (''HTTP '' @ number_toString (http_status resp) @ '': '' @ statusText resp),
            status = http_status resp\<rparr>
         \<and> data (fst (request c net meth path dat hdrs)) = None
         \<and> ReadJson \<notin> set (snd (request c net meth path dat hdrs))"
proof -
  from assms(2,3) have "\<not> ok resp"
    by (simp add: fetch_response_wf_def)
  with assms(1) show ?thesis
    by (simp add: request_not_ok)
qed

theorem request_http_failure_witness:
  "fetch_response_wf not_found \<and> \<not> success_range (http_status not_found)
   \<and> fst (request client0 (respond not_found) ''GET'' ''/notfound'' None None) =
       \<lparr>data = None, error = Some ''HTTP 404: Not Found'', status = 404\<rparr>
   \<and> ReadJson \<notin> set (snd (request client0 (respond not_found) ''GET'' ''/notfound'' None None))"
proof -
  have wf: "fetch_response_wf not_found"
    by (simp add: fetch_response_wf_def not_found_def success_range_def)
  have out: "\<not> success_range (http_status not_found)"
    by (simp add: not_found_def success_range_def)
  have call: "respond not_found (baseUrl client0 @ ''/notfound'')
                (request_init client0 ''GET'' None None) = Inr not_found"
    by (simp add: respond_def)
  have st: "http_status not_found = 404"
    by (simp add: not_found_def)
  have msg: "''HTTP '' @ number_toString (http_status not_found) @ '': '' @ statusText not_found
               = ''HTTP 404: Not Found''"
    by (simp add: not_found_def number_toString_def show_nat.simps)
  show ?thesis
    using request_http_failure [where net = "respond not_found" and c = client0, OF call wf out]
      wf out msg st
    by simp
qed

lemma request_fetch_rejects:
  assumes "net (baseUrl c @ path) (request_init c meth dat hdrs) = Inl e"
  shows "request c net meth path dat hdrs =
           (request_catch e,
            [SetTimeout_abort (timeout c), Fetch (baseUrl c @ path) (request_init c meth dat hdrs)])"
  using assms by (simp add: request_def Let_def)

lemma request_json_rejects:
  assumes "net (baseUrl c @ path) (request_init c meth dat hdrs) = Inr resp" and "ok resp"
    and "json resp = Inl e"
  shows "request c net meth path dat hdrs =
           (request_catch e,
            [SetTimeout_abort (timeout c), Fetch (baseUrl c @ path) (request_init c meth dat hdrs),
             ClearTimeout, ReadJson])"
  using assms by (simp add: request_def Let_def)

lemma request_success:
  assumes "net (baseUrl c @ path) (request_init c meth dat hdrs) = Inr resp" and "ok resp"
    and "json resp = Inr v"
  shows "request c net meth path dat hdrs =
           (\<lparr>data = Some v, error = None, status = http_status resp\<rparr>,
            [SetTimeout_abort (timeout c), Fetch (baseUrl c @ path) (request_init c meth dat hdrs),
             ClearTimeout, ReadJson])"
  using assms by (simp add: request_def Let_def)

text \<open>
  C3. A call that is cancelled with a was-aborted cause, that is, one whose \<open>fetch\<close>
  (or body read) rejects with an \<open>Error\<close> named \<open>AbortError\<close>, returns exactly
  status 408 with the error \<open>Request timeout\<close>; any other raised \<open>Error\<close> returns
  status 500 with its message; a thrown value that is not an \<open>Error\<close> returns status
  500 with \<open>Unknown error occurred\<close>.
\<close>

theorem request_error_mapping:
  assumes "net (baseUrl c @ path) (request_init c meth dat hdrs) = Inl e
           \<or> (\<exists>resp. net (baseUrl c @ path) (request_init c meth dat hdrs) = Inr resp
                 \<and> ok resp \<and> json resp = Inl e)"
  shows "(instanceof_Error e \<and> error_name e = ''AbortError'' \<longrightarrow>
            fst (request c net meth path dat hdrs) =
              \<lparr>data = None, error = Some ''Request timeout'', status = 408\<rparr>)
       \<and> (instanceof_Error e \<and> error_name e \<noteq> ''AbortError'' \<longrightarrow>
            fst (request c net meth path dat hdrs) =
              \<lparr>data = None, error = Some (error_message e), status = 500\<rparr>)
       \<and> (\<not> instanceof_Error e \<longrightarrow>
            fst (request c net meth path dat hdrs) =
              \<lparr>data = None, error = Some ''Unknown error occurred'', status = 500\<rparr>)"
proof -
  have "fst (request c net meth path dat hdrs) = request_catch e"
    using assms by (auto simp: request_fetch_rejects request_json_rejects)
  then show ?thesis
    by (simp add: request_catch_def)
qed

theorem request_error_mapping_witness:
  "fst (request client0 (reject (Error ''AbortError'' ''This operation was aborted''))
          ''GET'' ''/test'' None None) =
     \<lparr>data = None, error = Some ''Request timeout'', status = 408\<rparr>
   \<and> fst (request client0 (reject (Error ''TypeError'' ''fetch failed'')) ''GET'' ''/test'' None None) =
       \<lparr>data = None, error = Some ''fetch failed'', status = 500\<rparr>
   \<and> fst (request client0 (reject (Thrown (JStr ''String error''))) ''GET'' ''/test'' None None) =
       \<lparr>data = None, error = Some ''Unknown error occurred'', status = 500\<rparr>
   \<and> fst (request client0 (respond bad_json) ''GET'' ''/test'' None None) =
       \<lparr>data = None, error = Some ''Unexpected end of JSON input'', status = 500\<rparr>"
  using request_error_mapping [where net = "reject (Error ''AbortError'' ''This operation was aborted'')"
          and c = client0 and path = "''/test''" and meth = "''GET''" and dat = None and hdrs = None
          and e = "Error ''AbortError'' ''This operation was aborted''"]
        request_error_mapping [where net = "reject (Error ''TypeError'' ''fetch failed'')"
          and c = client0 and path = "''/test''" and meth = "''GET''" and dat = None and hdrs = None
          and e = "Error ''TypeError'' ''fetch failed''"]
        request_error_mapping [where net = "reject (Thrown (JStr ''String error''))"
          and c = client0 and path = "''/test''" and meth = "''GET''" and dat = None and hdrs = None
          and e = "Thrown (JStr ''String error'')"]
        request_error_mapping [where net = "respond bad_json"
          and c = client0 and path = "''/test''" and meth = "''GET''" and dat = None and hdrs = None
          and e = "Error ''SyntaxError'' ''Unexpected end of JSON input''"]
  by (simp add: reject_def respond_def bad_json_def)

lemma request_fetch_calls:
  "fetch_calls (snd (request c net meth path dat hdrs)) =
     [(baseUrl c @ path, request_init c meth dat hdrs)]"
  by (simp add: request_def Let_def split: sum.splits)

lemma HttpClient_request_accepted:
  "HttpClient_request c net meth path (map_option accepted dat) hdrs =
     request c net meth path dat hdrs"
  by (cases dat)
     (simp_all add: HttpClient_request_def request_def request_init_def body_expression_def
        accepted_def Let_def)

lemma HttpClient_request_fetch_calls:
  assumes "body_expression dat = Inr b"
  shows "fetch_calls (snd (HttpClient_request c net meth path dat hdrs)) =
           [(baseUrl c @ path,
             \<lparr>http_method = Some meth,
              headers = spread (defaultHeaders c) (case hdrs of Some h \<Rightarrow> h | None \<Rightarrow> []),
              body = b, signal = Some ControllerSignal\<rparr>)]"
  using assms by (simp add: HttpClient_request_def Let_def split: sum.splits)

lemma HttpClient_request_no_call:
  assumes "body_expression dat = Inl e"
  shows "HttpClient_request c net meth path dat hdrs =
           (request_catch e, [SetTimeout_abort (timeout c)])"
  using assms by (simp add: HttpClient_request_def Let_def)

text \<open>
  C4, as amended. For every method, path and body, \<open>request\<close> issues at most one
  outbound call, to the base URL followed by the path. When the body is \<open>undefined\<close>
  or falsy (\<open>null\<close>, \<open>false\<close>, \<open>0\<close>, the empty string), it issues exactly one call, with
  the body field absent. When the body is truthy and \<open>JSON.stringify\<close> returns on it, it
  issues exactly one call, whose body is what \<open>JSON.stringify\<close> returned. When the body
  is truthy and \<open>JSON.stringify\<close> throws on it, it issues no call and returns the
  envelope of its \<open>catch\<close> block for what was thrown.
\<close>

theorem request_one_call_body:
  "(dat = None \<or> (\<exists>d. dat = Some d \<and> \<not> any_truthy d) \<longrightarrow>
      fetch_calls (snd (HttpClient_request c net meth path dat hdrs)) =
        [(baseUrl c @ path,
          \<lparr>http_method = Some meth,
           headers = spread (defaultHeaders c) (case hdrs of Some h \<Rightarrow> h | None \<Rightarrow> []),
           body = None, signal = Some ControllerSignal\<rparr>)])
   \<and> (\<forall>d serialized. dat = Some d \<and> any_truthy d \<and> any_stringify d = Inr serialized \<longrightarrow>
      fetch_calls (snd (HttpClient_request c net meth path dat hdrs)) =
        [(baseUrl c @ path,
          \<lparr>http_method = Some meth,
           headers = spread (defaultHeaders c) (case hdrs of Some h \<Rightarrow> h | None \<Rightarrow> []),
           body = serialized, signal = Some ControllerSignal\<rparr>)])
   \<and> (\<forall>d e. dat = Some d \<and> any_truthy d \<and> any_stringify d = Inl e \<longrightarrow>
      fetch_calls (snd (HttpClient_request c net meth path dat hdrs)) = []
      \<and> fst (HttpClient_request c net meth path dat hdrs) = request_catch e)"
proof -
  have absent: "dat = None \<or> (\<exists>d. dat = Some d \<and> \<not> any_truthy d) \<Longrightarrow>
                  body_expression dat = Inr None"
    by (auto simp: body_expression_def)
  have returned: "\<And>d serialized. dat = Some d \<Longrightarrow> any_truthy d \<Longrightarrow>
                    any_stringify d = Inr serialized \<Longrightarrow> body_expression dat = Inr serialized"
    by (simp add: body_expression_def)
  have thrown: "\<And>d e. dat = Some d \<Longrightarrow> any_truthy d \<Longrightarrow> any_stringify d = Inl e \<Longrightarrow>
                  body_expression dat = Inl e"
    by (simp add: body_expression_def)
  show ?thesis
  proof (intro conjI allI impI)
    assume "dat = None \<or> (\<exists>d. dat = Some d \<and> \<not> any_truthy d)"
    then show "fetch_calls (snd (HttpClient_request c net meth path dat hdrs)) =
        [(baseUrl c @ path,
          \<lparr>http_method = Some meth,
           headers = spread (defaultHeaders c) (case hdrs of Some h \<Rightarrow> h | None \<Rightarrow> []),
           body = None, signal = Some ControllerSignal\<rparr>)]"
      by (rule HttpClient_request_fetch_calls [OF absent])
  next
    fix d serialized
    assume "dat = Some d \<and> any_truthy d \<and> any_stringify d = Inr serialized"
    then have "body_expression dat = Inr serialized"
      using returned by blast
    then show "fetch_calls (snd (HttpClient_request c net meth path dat hdrs)) =
        [(baseUrl c @ path,
          \<lparr>http_method = Some meth,
           headers = spread (defaultHeaders c) (case hdrs of Some h \<Rightarrow> h | None \<Rightarrow> []),
           body = serialized, signal = Some ControllerSignal\<rparr>)]"
      by (rule HttpClient_request_fetch_calls)
  next
    fix d e
    assume "dat = Some d \<and> any_truthy d \<and> any_stringify d = Inl e"
    then have "body_expression dat = Inl e"
      using thrown by blast
    then show "fetch_calls (snd (HttpClient_request c net meth path dat hdrs)) = []"
      by (simp add: HttpClient_request_no_call)
  next
    fix d e
    assume "dat = Some d \<and> any_truthy d \<and> any_stringify d = Inl e"
    then have "body_expression dat = Inl e"
      using thrown by blast
    then show "fst (HttpClient_request c net meth path dat hdrs) = request_catch e"
      by (simp add: HttpClient_request_no_call)
  qed
qed

theorem request_one_call_body_witness:
  "fetch_calls (snd (HttpClient_request client0 (respond (ok_with 201 JNull)) ''POST'' ''/create''
                       (Some test_object) None)) =
     [(''http://example.com/create'',
       \<lparr>http_method = Some ''POST'',
        headers = [(''Content-Type'', ''application/json''), (''User-Agent'', ''conduites-bff/1.0.0'')],
        body = Some [CHR ''{'', CHR 0x22, CHR ''n'', CHR ''a'', CHR ''m'', CHR ''e'', CHR 0x22,
                     CHR '':'', CHR 0x22, CHR ''t'', CHR ''e'', CHR ''s'', CHR ''t'', CHR 0x22,
                     CHR '','', CHR 0x22, CHR ''v'', CHR ''a'', CHR ''l'', CHR ''u'', CHR ''e'',
                     CHR 0x22, CHR '':'', CHR ''1'', CHR ''2'', CHR ''3'', CHR ''}''],
        signal = Some ControllerSignal\<rparr>)]
   \<and> fetch_calls (snd (HttpClient_request client0 (respond (ok_with 200 JNull)) ''POST'' ''/action''
                         None None)) =
     [(''http://example.com/action'',
       \<lparr>http_method = Some ''POST'',
        headers = [(''Content-Type'', ''application/json''), (''User-Agent'', ''conduites-bff/1.0.0'')],
        body = None,
        signal = Some ControllerSignal\<rparr>)]
   \<and> fetch_calls (snd (HttpClient_request client0 (respond (ok_with 200 JNull)) ''POST'' ''/ledger''
                         (Some js_bigint) None)) = []
   \<and> fst (HttpClient_request client0 (respond (ok_with 200 JNull)) ''POST'' ''/ledger''
             (Some js_bigint) None) =
       \<lparr>data = None, error = Some ''Do not know how to serialize a BigInt'', status = 500\<rparr>
   \<and> fetch_calls (snd (HttpClient_request client0 (respond (ok_with 200 JNull)) ''PUT'' ''/level''
                         (Some js_zero) None)) =
     [(''http://example.com/level'',
       \<lparr>http_method = Some ''PUT'',
        headers = [(''Content-Type'', ''application/json''), (''User-Agent'', ''conduites-bff/1.0.0'')],
        body = None,
        signal = Some ControllerSignal\<rparr>)]"
proof -
  have c0: "client0 =
              \<lparr>baseUrl = ''http://example.com'', timeout = 30000,
               defaultHeaders = [(''Content-Type'', ''application/json''),
                                 (''User-Agent'', ''conduites-bff/1.0.0'')]\<rparr>"
    by (simp add: client0_def HttpClient_new_def appConfig0_def no_options_def
        strip_trailing_slash_def spread_def)
  show ?thesis
    using request_one_call_body [of "Some test_object" client0 "respond (ok_with 201 JNull)"
            "''POST''" "''/create''" None]
          request_one_call_body [of None client0 "respond (ok_with 200 JNull)"
            "''POST''" "''/action''" None]
          request_one_call_body [of "Some js_bigint" client0 "respond (ok_with 200 JNull)"
            "''POST''" "''/ledger''" None]
          request_one_call_body [of "Some js_zero" client0 "respond (ok_with 200 JNull)"
            "''PUT''" "''/level''" None]
    by (simp add: c0 spread_def test_object_def js_bigint_def js_zero_def request_catch_def)
qed

text \<open>
  C4 as stated fails: the body \<open>0\<close> is defined and \<open>JSON.stringify\<close> gives \<open>0\<close> for
  it, yet the call goes out with no body; and on the \<open>BigInt\<close> \<open>1n\<close>, a defined body,
  no call goes out at all.
\<close>

theorem request_body_counterexample:
  "any_stringify js_zero = Inr (Some ''0'')
   \<and> map (\<lambda>call. body (snd call))
       (fetch_calls (snd (HttpClient_request client0 (respond (ok_with 200 JNull)) ''POST''
                            ''/counters'' (Some js_zero) None))) = [None]
   \<and> fetch_calls (snd (HttpClient_request client0 (respond (ok_with 200 JNull)) ''POST''
                         ''/ledger'' (Some js_bigint) None)) = []"
  by (simp add: HttpClient_request_def body_expression_def js_zero_def js_bigint_def Let_def
      respond_def ok_with_def)

section \<open>Health probing: results\<close>

lemma healthCheck_eq:
  "healthCheck c net startTime now =
     (Inr (healthCheck_result (Inr (fst (get c net ''/health'' None))) startTime now),
      snd (get c net ''/health'' None))"
  by (simp add: healthCheck_def split: prod.splits)




section \<open>Service clients: results\<close>

text \<open>
  C6, as amended. For every id and every downstream response envelope, each delete
  operation (\<open>deleteUser\<close>, \<open>deleteProduct\<close>, \<open>deleteNotification\<close>) raises an
  \<open>Error\<close> carrying \<open>response.error\<close> whenever that error is a non-empty string,
  whatever the status code; otherwise (no error, or the empty string) it returns the
  boolean \<open>status = 204\<close>, that is, true if and only if the status was exactly 204.
\<close>

lemma deleteUser_eq:
  "fst (deleteUser client net ident) =
     (case error (fst (delete client net (''/users/'' @ ident) None)) of
        None \<Rightarrow> Inr (status (fst (delete client net (''/users/'' @ ident) None)) = 204)
      | Some msg \<Rightarrow>
          if msg \<noteq> [] then Inl (Error ''Error'' msg)
          else Inr (status (fst (delete client net (''/users/'' @ ident) None)) = 204))"
  by (simp add: deleteUser_def new_Error_def case_prod_beta split: option.splits)

lemma deleteProduct_eq:
  "fst (deleteProduct client net ident) =
     (case error (fst (delete client net (''/products/'' @ ident) None)) of
        None \<Rightarrow> Inr (status (fst (delete client net (''/products/'' @ ident) None)) = 204)
      | Some msg \<Rightarrow>
          if msg \<noteq> [] then Inl (Error ''Error'' msg)
          else Inr (status (fst (delete client net (''/products/'' @ ident) None)) = 204))"
  by (simp add: deleteProduct_def new_Error_def case_prod_beta split: option.splits)

lemma deleteNotification_eq:
  "fst (deleteNotification client net ident) =
     (case error (fst (delete client net (''/notifications/'' @ ident) None)) of
        None \<Rightarrow> Inr (status (fst (delete client net (''/notifications/'' @ ident) None)) = 204)
      | Some msg \<Rightarrow>
          if msg \<noteq> [] then Inl (Error ''Error'' msg)
          else Inr (status (fst (delete client net (''/notifications/'' @ ident) None)) = 204))"
  by (simp add: deleteNotification_def new_Error_def case_prod_beta split: option.splits)

theorem delete_operations_result:
  "(\<forall>msg. error (fst (delete client net (''/users/'' @ ident) None)) = Some msg \<and> msg \<noteq> [] \<longrightarrow>
      fst (deleteUser client net ident) = Inl (Error ''Error'' msg))
   \<and> (error (fst (delete client net (''/users/'' @ ident) None)) \<in> {None, Some []} \<longrightarrow>
      fst (deleteUser client net ident) =
        Inr (status (fst (delete client net (''/users/'' @ ident) None)) = 204))
   \<and> (\<forall>msg. error (fst (delete client net (''/products/'' @ ident) None)) = Some msg \<and> msg \<noteq> [] \<longrightarrow>
      fst (deleteProduct client net ident) = Inl (Error ''Error'' msg))
   \<and> (error (fst (delete client net (''/products/'' @ ident) None)) \<in> {None, Some []} \<longrightarrow>
      fst (deleteProduct client net ident) =
        Inr (status (fst (delete client net (''/products/'' @ ident) None)) = 204))
   \<and> (\<forall>msg. error (fst (delete client net (''/notifications/'' @ ident) None)) = Some msg
            \<and> msg \<noteq> [] \<longrightarrow>
      fst (deleteNotification client net ident) = Inl (Error ''Error'' msg))
   \<and> (error (fst (delete client net (''/notifications/'' @ ident) None)) \<in> {None, Some []} \<longrightarrow>
      fst (deleteNotification client net ident) =
        Inr (status (fst (delete client net (''/notifications/'' @ ident) None)) = 204))"
  by (auto simp: deleteUser_eq deleteProduct_eq deleteNotification_eq)

theorem delete_operations_result_witness:
  "fst (deleteUser client0 (respond (ok_with 204 JNull)) ''42'') = Inr True
   \<and> fst (deleteUser client0 (respond (ok_with 200 JNull)) ''42'') = Inr False
   \<and> fst (deleteUser client0 (respond not_found) ''42'') = Inl (Error ''Error'' ''HTTP 404: Not Found'')
   \<and> fst (deleteProduct client0 (respond (ok_with 204 JNull)) ''42'') = Inr True
   \<and> fst (deleteNotification client0 (respond not_found) ''42'') =
       Inl (Error ''Error'' ''HTTP 404: Not Found'')"
proof -
  have a: "fst (delete client0 (respond (ok_with 204 JNull)) ''/users/42'' None) =
             \<lparr>data = Some JNull, error = None, status = 204\<rparr>"
    by (simp add: delete_def request_def respond_def ok_with_def)
  have b: "fst (delete client0 (respond (ok_with 200 JNull)) ''/users/42'' None) =
             \<lparr>data = Some JNull, error = None, status = 200\<rparr>"
    by (simp add: delete_def request_def respond_def ok_with_def)
  have c: "fst (delete client0 (respond not_found) ''/users/42'' None) =
             \<lparr>data = None, error = Some ''HTTP 404: Not Found'', status = 404\<rparr>"
    by (simp add: delete_def request_def respond_def not_found_def number_toString_def
        show_nat.simps)
  have d: "fst (delete client0 (respond (ok_with 204 JNull)) ''/products/42'' None) =
             \<lparr>data = Some JNull, error = None, status = 204\<rparr>"
    by (simp add: delete_def request_def respond_def ok_with_def)
  have e: "fst (delete client0 (respond not_found) ''/notifications/42'' None) =
             \<lparr>data = None, error = Some ''HTTP 404: Not Found'', status = 404\<rparr>"
    by (simp add: delete_def request_def respond_def not_found_def number_toString_def
        show_nat.simps)
  show ?thesis
    using delete_operations_result [of client0 "respond (ok_with 204 JNull)" "''42''"]
          delete_operations_result [of client0 "respond (ok_with 200 JNull)" "''42''"]
          delete_operations_result [of client0 "respond not_found" "''42''"]
    by (simp add: a b c d e)
qed

theorem delete_empty_error_counterexample:
  "error (fst (delete client0 (reject (Error ''Error'' [])) ''/users/42'' None)) = Some []
   \<and> fst (deleteUser client0 (reject (Error ''Error'' [])) ''42'') = Inr False"
  by (simp add: deleteUser_def delete_def request_def reject_def request_catch_def
      case_prod_beta)


section \<open>Resolvers: results\<close>

lemma getUserById_raises_plain:
  "fst (getUserById client net ident) = Inl e \<Longrightarrow> \<exists>msg. e = Error ''Error'' msg"
  by (auto simp: getUserById_def new_Error_def case_prod_beta split: option.splits if_splits)

lemma accountResolver_getAccount_fst:
  "fst (accountResolver_getAccount config net ident ctx) =
     (case fst (getAccountById (downstream_accountService config) net ident) of
        Inr result \<Rightarrow> Inr result
      | Inl e \<Rightarrow> Inl (to_GraphQLError e ''Failed to fetch account''))"
  by (simp add: accountResolver_getAccount_def case_prod_beta)

lemma accountResolver_getCustomer_fst:
  "fst (accountResolver_getCustomer config net ident ctx) =
     (case fst (getCustomerById (downstream_customerService config) net ident) of
        Inr result \<Rightarrow> Inr result
      | Inl e \<Rightarrow> Inl (to_GraphQLError e ''Failed to fetch customer''))"
  by (simp add: accountResolver_getCustomer_def case_prod_beta)

lemma customerResolver_getCustomer_fst:
  "fst (customerResolver_getCustomer config net ident ctx) =
     (case fst (getCustomerById (downstream_customerService config) net ident) of
        Inr result \<Rightarrow> Inr result
      | Inl e \<Rightarrow> Inl (to_GraphQLError e ''Failed to fetch customer''))"
  by (simp add: customerResolver_getCustomer_def case_prod_beta)

lemma customerResolver_getAccounts_fst:
  "fst (customerResolver_getAccounts config net ident ctx) =
     (case fst (getAccountsByCustomerId (downstream_accountService config) net ident) of
        Inr result \<Rightarrow> Inr result
      | Inl e \<Rightarrow> Inl (to_GraphQLError e ''Failed to fetch accounts''))"
  by (simp add: customerResolver_getAccounts_def case_prod_beta)

text \<open>
  C7, as amended. For every \<open>Error\<close> raised by the account or customer service client
  that reaches \<open>accountResolver.getAccount\<close>, \<open>accountResolver.getCustomer\<close>,
  \<open>customerResolver.getCustomer\<close> or \<open>customerResolver.getAccounts\<close>, the resolver
  throws a \<open>GraphQLError\<close> whose message is that error's message verbatim. The user
  resolver \<open>Query.user\<close> converts nothing: what it throws is what the user service
  client raised, a plain \<open>Error\<close> and never a \<open>GraphQLError\<close>. The resolver
  \<open>customerResolvers.Query.customer\<close>, over its placeholder service, never fails.
\<close>

theorem resolver_error_conversion:
  "(\<forall>e. fst (getAccountById (downstream_accountService config) net ident) = Inl e
          \<and> instanceof_Error e \<longrightarrow>
        fst (accountResolver_getAccount config net ident ctx) = Inl (GraphQLError (error_message e)))
   \<and> (\<forall>e. fst (getCustomerById (downstream_customerService config) net ident) = Inl e
          \<and> instanceof_Error e \<longrightarrow>
        fst (accountResolver_getCustomer config net ident ctx) = Inl (GraphQLError (error_message e))
        \<and> fst (customerResolver_getCustomer config net ident ctx) =
            Inl (GraphQLError (error_message e)))
   \<and> (\<forall>e. fst (getAccountsByCustomerId (downstream_accountService config) net ident) = Inl e
          \<and> instanceof_Error e \<longrightarrow>
        fst (customerResolver_getAccounts config net ident ctx) =
          Inl (GraphQLError (error_message e)))
   \<and> fst (userResolvers_Query_user client net ident) = fst (getUserById client net ident)
   \<and> (\<forall>e. fst (userResolvers_Query_user client net ident) = Inl e \<longrightarrow>
        (\<exists>msg. e = Error ''Error'' msg) \<and> \<not> instanceof_GraphQLError e)
   \<and> (\<exists>customer. customerResolvers_Query_customer ident = Inr customer)"
proof -
  have user: "\<forall>e. fst (userResolvers_Query_user client net ident) = Inl e \<longrightarrow>
                (\<exists>msg. e = Error ''Error'' msg) \<and> \<not> instanceof_GraphQLError e"
    using getUserById_raises_plain [of client net ident]
    by (auto simp: userResolvers_Query_user_def)
  have placeholder: "\<exists>customer. customerResolvers_Query_customer ident = Inr customer"
    by (simp add: customerResolvers_Query_customer_def placeholder_getCustomerById_def)
  show ?thesis
    using user placeholder
    by (simp add: accountResolver_getAccount_fst accountResolver_getCustomer_fst
        customerResolver_getCustomer_fst customerResolver_getAccounts_fst to_GraphQLError_def
        userResolvers_Query_user_def)
qed

theorem resolver_error_conversion_witness:
  "fst (accountResolver_getAccount config0 (respond not_found) ''acc123'' \<lparr>requestId = Some ''req-002''\<rparr>)
     = Inl (GraphQLError ''Failed to fetch account acc123: 404 Not Found'')
   \<and> fst (accountResolver_getCustomer config0 (respond not_found) ''acc123''
            \<lparr>requestId = Some ''req-002''\<rparr>)
     = Inl (GraphQLError ''Failed to fetch customer acc123: 404 Not Found'')
   \<and> fst (customerResolver_getCustomer config0 (respond not_found) ''acc123''
            \<lparr>requestId = Some ''req-002''\<rparr>)
     = Inl (GraphQLError ''Failed to fetch customer acc123: 404 Not Found'')
   \<and> fst (customerResolver_getAccounts config0 (respond not_found) ''acc123''
            \<lparr>requestId = Some ''req-002''\<rparr>)
     = Inl (GraphQLError ''Failed to fetch accounts for customer acc123: 404 Not Found'')
   \<and> fst (userResolvers_Query_user client0 (respond not_found) ''7'') =
       Inl (Error ''Error'' ''HTTP 404: Not Found'')"
proof -
  have a2: "fst (getCustomerById (downstream_customerService config0) (respond not_found) ''acc123'') =
             Inl (Error ''Error'' ''Failed to fetch customer acc123: 404 Not Found'')"
    by (simp add: getCustomerById_def respond_def not_found_def new_Error_def number_toString_def
        show_nat.simps)
  have a3: "fst (getAccountsByCustomerId (downstream_accountService config0) (respond not_found)
                   ''acc123'') =
             Inl (Error ''Error'' ''Failed to fetch accounts for customer acc123: 404 Not Found'')"
    by (simp add: getAccountsByCustomerId_def respond_def not_found_def new_Error_def
        number_toString_def show_nat.simps)
  have a: "fst (getAccountById (downstream_accountService config0) (respond not_found) ''acc123'') =
             Inl (Error ''Error'' ''Failed to fetch account acc123: 404 Not Found'')"
    by (simp add: getAccountById_def respond_def not_found_def new_Error_def number_toString_def
        show_nat.simps)
  have b: "fst (getUserById client0 (respond not_found) ''7'') =
             Inl (Error ''Error'' ''HTTP 404: Not Found'')"
    by (simp add: getUserById_def get_def request_def respond_def not_found_def new_Error_def
        number_toString_def show_nat.simps string_or_def)
  show ?thesis
    using resolver_error_conversion
            [of config0 "respond not_found" "''acc123''" "\<lparr>requestId = Some ''req-002''\<rparr>"
                client0]
          resolver_error_conversion
            [of config0 "respond not_found" "''7''" "\<lparr>requestId = Some ''req-002''\<rparr>"
                client0]
    by (simp add: a a2 a3 b)
qed

text \<open>
  C7 as stated fails: when the user service answers 404, the failure of the user service
  client reaches \<open>Query.user\<close> and leaves it as a plain \<open>Error\<close>, not as a
  \<open>GraphQLError\<close>.
\<close>

theorem user_resolver_plain_error_counterexample:
  "fst (userResolvers_Query_user client0 (respond not_found) ''7'') =
     Inl (Error ''Error'' ''HTTP 404: Not Found'')
   \<and> \<not> instanceof_GraphQLError (Error ''Error'' ''HTTP 404: Not Found'')"
  by (simp add: userResolvers_Query_user_def getUserById_def get_def request_def respond_def
      not_found_def new_Error_def number_toString_def show_nat.simps string_or_def)

lemma getAccountsByCustomerId_fetch_calls:
  "fetch_calls (snd (getAccountsByCustomerId base net customerId)) =
     [(base @ ''/accounts?customerId='' @ customerId, no_init)]"
  by (simp add: getAccountsByCustomerId_def Let_def split: sum.splits)

text \<open>
  C8. For every customer parent with id \<open>c\<close>, the effects of the \<open>Customer.accounts\<close>
  resolver \<open>customerResolver.getAccounts\<close> are its log line followed by the effects of
  one call \<open>getAccountsByCustomerId(c)\<close> of the account service, which holds exactly
  one outbound request, for \<open>customerId = c\<close>; the account list which that call
  returns is the resolver's result, unchanged.
\<close>

theorem customer_accounts_one_call:
  "snd (customerResolver_getAccounts config net c ctx) =
     ConsoleLog (''['' @ string_or (requestId ctx) ''unknown'' @ ''] Fetching accounts for customer: '' @ c)
       # snd (getAccountsByCustomerId (downstream_accountService config) net c)
   \<and> fetch_calls (snd (customerResolver_getAccounts config net c ctx)) =
       [(downstream_accountService config @ ''/accounts?customerId='' @ c, no_init)]
   \<and> (\<forall>accounts. fst (getAccountsByCustomerId (downstream_accountService config) net c) = Inr accounts
          \<longrightarrow> fst (customerResolver_getAccounts config net c ctx) = Inr accounts)"
  by (simp add: customerResolver_getAccounts_fst getAccountsByCustomerId_fetch_calls)
     (simp add: customerResolver_getAccounts_def case_prod_beta
        getAccountsByCustomerId_fetch_calls)

theorem customer_accounts_one_call_witness:
  "fst (customerResolver_getAccounts config0 (respond (ok_with 200 two_accounts)) ''cust789''
          \<lparr>requestId = Some ''req-008''\<rparr>) = Inr two_accounts
   \<and> snd (customerResolver_getAccounts config0 (respond (ok_with 200 two_accounts)) ''cust789''
          \<lparr>requestId = Some ''req-008''\<rparr>) =
       [ConsoleLog ''[req-008] Fetching accounts for customer: cust789'',
        Fetch ''http://account-service:8080/accounts?customerId=cust789'' no_init,
        ReadJson]"
proof -
  have a: "getAccountsByCustomerId (downstream_accountService config0)
             (respond (ok_with 200 two_accounts)) ''cust789'' =
           (Inr two_accounts,
            [Fetch ''http://account-service:8080/accounts?customerId=cust789'' no_init, ReadJson])"
    by (simp add: getAccountsByCustomerId_def respond_def ok_with_def config0_def)
  show ?thesis
    using customer_accounts_one_call
            [of config0 "respond (ok_with 200 two_accounts)" "''cust789''"
                "\<lparr>requestId = Some ''req-008''\<rparr>"]
    by (simp add: a string_or_def)
qed


section \<open>Deadlines\<close>

lemma request_starts:
  "take 2 (snd (request c net meth path dat hdrs)) =
     [SetTimeout_abort (timeout c), Fetch (baseUrl c @ path) (request_init c meth dat hdrs)]"
  by (simp add: request_def Let_def split: sum.splits)

lemma getAccountById_fetch_calls:
  "fetch_calls (snd (getAccountById base net ident)) = [(base @ ''/accounts/'' @ ident, no_init)]"
  by (simp add: getAccountById_def Let_def split: sum.splits)

lemma getCustomerById_fetch_calls:
  "fetch_calls (snd (getCustomerById base net ident)) =
     [(base @ ''/customers/'' @ ident, customer_init)]"
  by (simp add: getCustomerById_def Let_def split: sum.splits)

lemma direct_clients_set_no_timer:
  "SetTimeout_abort ms \<notin> set (snd (getAccountById base net ident))"
  "SetTimeout_abort ms \<notin> set (snd (getAccountsByCustomerId base net ident))"
  "SetTimeout_abort ms \<notin> set (snd (getCustomerById base net ident))"
  by (simp_all add: getAccountById_def getAccountsByCustomerId_def getCustomerById_def Let_def
      split: sum.splits)

text \<open>
  C9, as amended. Every outbound call issued through \<open>HttpClient.request\<close> (the
  envelope clients) first arms a timer that aborts the request's own controller after the
  client's timeout, which is the configured \<open>appConfig.request.timeout\<close> when the client
  is built without options, and passes that controller's signal to \<open>fetch\<close>; a
  \<open>fetch\<close> rejected with \<open>AbortError\<close> returns status 408 with \<open>Request timeout\<close>.
  The account and customer clients that call \<open>fetch\<close> themselves pass no signal and arm
  no timer: their calls carry no deadline.
\<close>

theorem request_deadline:
  "take 2 (snd (request c net meth path dat hdrs)) =
     [SetTimeout_abort (timeout c), Fetch (baseUrl c @ path) (request_init c meth dat hdrs)]
   \<and> map (\<lambda>call. signal (snd call)) (fetch_calls (snd (request c net meth path dat hdrs))) =
       [Some ControllerSignal]
   \<and> timeout (HttpClient_new appConfig url no_options) = request_timeout appConfig
   \<and> (\<forall>m. net (baseUrl c @ path) (request_init c meth dat hdrs) = Inl (Error ''AbortError'' m) \<longrightarrow>
         fst (request c net meth path dat hdrs) =
           \<lparr>data = None, error = Some ''Request timeout'', status = 408\<rparr>)
   \<and> map (\<lambda>call. signal (snd call)) (fetch_calls (snd (getAccountById base net ident))) = [None]
   \<and> map (\<lambda>call. signal (snd call)) (fetch_calls (snd (getAccountsByCustomerId base net ident))) =
       [None]
   \<and> map (\<lambda>call. signal (snd call)) (fetch_calls (snd (getCustomerById base net ident))) = [None]
   \<and> SetTimeout_abort ms \<notin> set (snd (getAccountById base net ident))
   \<and> SetTimeout_abort ms \<notin> set (snd (getAccountsByCustomerId base net ident))
   \<and> SetTimeout_abort ms \<notin> set (snd (getCustomerById base net ident))"
  by (simp add: request_starts request_fetch_calls request_fetch_rejects request_catch_def
      getAccountById_fetch_calls getAccountsByCustomerId_fetch_calls getCustomerById_fetch_calls
      direct_clients_set_no_timer)
     (simp add: request_init_def HttpClient_new_def no_options_def no_init_def customer_init_def)

theorem request_deadline_witness:
  "fst (request (userService_client appConfig0)
          (reject (Error ''AbortError'' ''This operation was aborted'')) ''GET'' ''/users/7''
          None None) =
     \<lparr>data = None, error = Some ''Request timeout'', status = 408\<rparr>
   \<and> take 2 (snd (request (userService_client appConfig0)
          (reject (Error ''AbortError'' ''This operation was aborted'')) ''GET'' ''/users/7''
          None None)) =
     [SetTimeout_abort 30000,
      Fetch ''http://user-service:8080/users/7''
        \<lparr>http_method = Some ''GET'',
         headers = [(''Content-Type'', ''application/json''), (''User-Agent'', ''conduites-bff/1.0.0'')],
         body = None, signal = Some ControllerSignal\<rparr>]"
proof -
  have c: "userService_client appConfig0 =
             \<lparr>baseUrl = ''http://user-service:8080'', timeout = 30000,
              defaultHeaders = [(''Content-Type'', ''application/json''),
                                (''User-Agent'', ''conduites-bff/1.0.0'')]\<rparr>"
    by (simp add: userService_client_def HttpClient_new_def appConfig0_def no_options_def
        strip_trailing_slash_def spread_def)
  show ?thesis
    using request_deadline
            [of "userService_client appConfig0"
                "reject (Error ''AbortError'' ''This operation was aborted'')"
                "''GET''" "''/users/7''" None None]
    by (simp add: reject_def) (simp add: c request_init_def spread_def)
qed

text \<open>
  C9 as stated fails: \<open>getAccountById\<close> calls \<open>fetch\<close> with no cancellation signal
  and no timer, and an abort of that call reaches the caller as the raised error, not as
  a 408 envelope.
\<close>

theorem direct_client_no_deadline_counterexample:
  "snd (getAccountById ''http://account-service:8080''
          (reject (Error ''AbortError'' ''This operation was aborted'')) ''acc123'') =
     [Fetch ''http://account-service:8080/accounts/acc123''
        \<lparr>http_method = None, headers = [], body = None, signal = None\<rparr>]
   \<and> fst (getAccountById ''http://account-service:8080''
          (reject (Error ''AbortError'' ''This operation was aborted'')) ''acc123'') =
     Inl (Error ''AbortError'' ''This operation was aborted'')"
  by (simp add: getAccountById_def reject_def no_init_def)

section \<open>The envelope invariant\<close>

text \<open>
  C10. Every envelope that \<open>request\<close> returns has a status (the field is total) and
  exactly one of \<open>data\<close> and \<open>error\<close> present. When the responses are those of
  \<open>fetch\<close> (\<open>ok\<close> means a status in 200..299), the envelope carries \<open>data\<close> and no
  \<open>error\<close> exactly when its status is in 200..299, and \<open>error\<close> and no \<open>data\<close> on
  every other result.
\<close>

theorem request_envelope_invariant:
  "(data (fst (request c net meth path dat hdrs)) = None)
     \<noteq> (error (fst (request c net meth path dat hdrs)) = None)
   \<and> ((\<forall>resp. net (baseUrl c @ path) (request_init c meth dat hdrs) = Inr resp \<longrightarrow>
          fetch_response_wf resp) \<longrightarrow>
        (success_range (status (fst (request c net meth path dat hdrs)))
           \<longleftrightarrow> data (fst (request c net meth path dat hdrs)) \<noteq> None))"
  by (auto simp: request_def Let_def request_catch_def fetch_response_wf_def success_range_def
      split: sum.splits)

theorem request_envelope_invariant_witness:
  "fetch_response_wf (ok_with 201 (JObj [(''id'', JNum 1)]))
   \<and> fst (request client0 (respond (ok_with 201 (JObj [(''id'', JNum 1)]))) ''POST'' ''/create''
            None None) =
       \<lparr>data = Some (JObj [(''id'', JNum 1)]), error = None, status = 201\<rparr>
   \<and> success_range 201
   \<and> fetch_response_wf not_found
   \<and> fst (request client0 (respond not_found) ''GET'' ''/notfound'' None None) =
       \<lparr>data = None, error = Some ''HTTP 404: Not Found'', status = 404\<rparr>
   \<and> \<not> success_range 404"
proof -
  have wf': "\<forall>resp. respond not_found (baseUrl client0 @ ''/notfound'')
                     (request_init client0 ''GET'' None None) = Inr resp \<longrightarrow>
                   fetch_response_wf resp"
    by (simp add: respond_def fetch_response_wf_def not_found_def success_range_def)
  have wf1: "fetch_response_wf not_found"
    by (simp add: fetch_response_wf_def not_found_def success_range_def)
  have sr': "\<not> success_range 404"
    by (simp add: success_range_def)
  have r': "fst (request client0 (respond not_found) ''GET'' ''/notfound'' None None) =
              \<lparr>data = None, error = Some ''HTTP 404: Not Found'', status = 404\<rparr>"
    by (simp add: request_def respond_def not_found_def number_toString_def show_nat.simps)
  have wf: "\<forall>resp. respond (ok_with 201 (JObj [(''id'', JNum 1)])) (baseUrl client0 @ ''/create'')
                     (request_init client0 ''POST'' None None) = Inr resp \<longrightarrow>
                   fetch_response_wf resp"
    by (simp add: respond_def fetch_response_wf_def ok_with_def success_range_def)
  have wf0: "fetch_response_wf (ok_with 201 (JObj [(''id'', JNum 1)]))"
    by (simp add: fetch_response_wf_def ok_with_def success_range_def)
  have sr: "success_range 201"
    by (simp add: success_range_def)
  have r: "fst (request client0 (respond (ok_with 201 (JObj [(''id'', JNum 1)]))) ''POST'' ''/create''
                  None None) =
             \<lparr>data = Some (JObj [(''id'', JNum 1)]), error = None, status = 201\<rparr>"
    by (simp add: request_def respond_def ok_with_def)
  show ?thesis
    using request_envelope_invariant
            [of client0 "respond (ok_with 201 (JObj [(''id'', JNum 1)]))" "''POST''" "''/create''"
                None None] wf
          request_envelope_invariant
            [of client0 "respond not_found" "''GET''" "''/notfound''" None None] wf'
    by (simp add: r wf0 sr r' wf1 sr')
qed

section \<open>The health aggregator: results\<close>

text \<open>
  C1, on the code: the notification service answers \<open>GET /health\<close> with 503. Its
  health check resolves to \<open>unhealthy\<close>, and the aggregator, which reads only whether
  the check settled as fulfilled, lists the service as \<open>healthy\<close> with a response time.
\<close>

theorem health_reports_failing_service_healthy:
  "fst (NotificationService_healthCheck client0 (respond unavailable) 1000 1042) =
     Inr \<lparr>health_status = ''unhealthy'', responseTime = 42\<rparr>
   \<and> fst (health client0 (respond unavailable) ''2026-01-01T00:00:00.000Z'' 1000 1042) =
     Inr \<lparr>overall_status = ''healthy'', timestamp = ''2026-01-01T00:00:00.000Z'',
          services = [\<lparr>name = Some ''notification-service'', service_status = ''healthy'',
                       service_responseTime = Some 42\<rparr>]\<rparr>"
  by (simp add: health_def NotificationService_healthCheck_def healthCheck_eq
      healthCheck_result_def get_def request_def respond_def unavailable_def allSettled_def
      serviceHealths_def nth_opt_def)

text \<open>
  The check of the notification service never rejects, so the aggregator's
  \<open>unhealthy\<close> entry is never produced, whatever the downstream does.
\<close>

lemma health_never_reports_unhealthy:
  "\<exists>t. fst (health client net ts startTime now) =
     Inr \<lparr>overall_status = ''healthy'', timestamp = ts,
          services = [\<lparr>name = Some ''notification-service'', service_status = ''healthy'',
                       service_responseTime = Some t\<rparr>]\<rparr>"
  by (simp add: health_def NotificationService_healthCheck_def healthCheck_eq allSettled_def
      serviceHealths_def nth_opt_def)

end
